theory Spec2Isabelle
  imports Main
begin

section \<open>Request values\<close>

text \<open>
  The repository holds two Express servers over one PostgreSQL database: the server of
  \<^verbatim>\<open>server.js\<close>, which talks to the database through a node-postgres \<^verbatim>\<open>Pool\<close> (below:
  the pool server, definitions prefixed \<open>pool_\<close>), and the server built on pg-promise
  (below: the pg-promise server, definitions prefixed \<open>pgp_\<close>). The tables follow the
  \<^verbatim>\<open>CREATE TABLE\<close> statements of the repository: \<^verbatim>\<open>parking_lots\<close> and \<^verbatim>\<open>schedules\<close> as
  the setup script creates them (the schedule statements of both servers name the columns
  \<^verbatim>\<open>location\<close> and \<^verbatim>\<open>parking_lot\<close>, which that schema has), \<^verbatim>\<open>users\<close> and \<^verbatim>\<open>spots\<close> as in
  the schema with the \<^verbatim>\<open>password_hash\<close> column, which the user statements of the
  pg-promise server write.

  A property of a JSON request body is absent (\<open>Undefined\<close>, what destructuring gives),
  \<open>null\<close>, or present with a value. A present value is represented at the type of the
  column it is written to: the model covers the requests whose values the driver and
  PostgreSQL can read at that type (a number for an integer column, a time of day for a
  \<^verbatim>\<open>TIME\<close> column, and so on); a value PostgreSQL cannot parse ends in the handler's
  error branch and is outside the model. Strings are byte strings.
\<close>

datatype 'a field = Undefined | Null | Val 'a

text \<open>JavaScript truthiness, as used by \<^verbatim>\<open>!x\<close> and \<^verbatim>\<open>x || d\<close>.\<close>

fun falsy_str :: "string field \<Rightarrow> bool" where
  "falsy_str Undefined = True"
| "falsy_str Null = True"
| "falsy_str (Val s) = (s = [])"

fun falsy_num :: "int field \<Rightarrow> bool" where
  "falsy_num Undefined = True"
| "falsy_num Null = True"
| "falsy_num (Val n) = (n = 0)"

fun or_default :: "string field \<Rightarrow> string \<Rightarrow> string" where
  "or_default (Val s) d = (if s = [] then d else s)"
| "or_default _ d = d"

fun or_null :: "string field \<Rightarrow> string option" where
  "or_null (Val s) = (if s = [] then None else Some s)"
| "or_null _ = None"

text \<open>An array is truthy even when empty, so \<^verbatim>\<open>xs || []\<close> replaces only absent and null.\<close>

fun or_empty :: "'a list field \<Rightarrow> 'a list" where
  "or_empty (Val xs) = xs"
| "or_empty _ = []"

text \<open>node-postgres sends \<^verbatim>\<open>undefined\<close> and \<^verbatim>\<open>null\<close> parameters as SQL \<^verbatim>\<open>NULL\<close>.\<close>

fun sql_param :: "'a field \<Rightarrow> 'a option" where
  "sql_param (Val v) = Some v"
| "sql_param _ = None"

fun the_val :: "string field \<Rightarrow> string" where
  "the_val (Val s) = s"
| "the_val _ = []"

text \<open>\<^verbatim>\<open>String.prototype.toLowerCase\<close>, on the ASCII letters.\<close>

definition lower_char :: "char \<Rightarrow> char" where
  "lower_char c =
     (case map_of (zip ''ABCDEFGHIJKLMNOPQRSTUVWXYZ'' ''abcdefghijklmnopqrstuvwxyz'') c of
        Some l \<Rightarrow> l
      | None \<Rightarrow> c)"

definition toLowerCase :: "string \<Rightarrow> string" where
  "toLowerCase s = map lower_char s"

section \<open>The database\<close>

datatype db_error =
    NotNullViolation string
  | CheckViolation string
  | UniqueViolation string
  | ForeignKeyViolation string
  | NumericOutOfRange
  | StringTooLong
  | SyntaxError
  | PropertyMissing

text \<open>A \<^verbatim>\<open>JSONB\<close> column holds SQL \<^verbatim>\<open>NULL\<close> (\<open>None\<close>), the JSON value null, or a document.\<close>

datatype 'a jsonb = JsonNull | Json 'a

type_synonym coord = "int \<times> int"
type_synonym timestamp = nat

record lot_row =
  l_id :: int
  l_name :: string
  l_rows :: int
  l_cols :: int
  l_spaces :: "coord list jsonb option"
  l_merged_aisles :: "coord list jsonb option"
  l_created_at :: timestamp
  l_updated_at :: timestamp

record user_row =
  u_id :: int
  u_name :: string
  u_email :: string
  u_phone :: "string option"
  u_password_hash :: string
  u_role :: string
  u_department :: "string option"
  u_status :: "string option"
  u_avatar :: "string option"
  u_created_at :: timestamp
  u_updated_at :: timestamp

record spot_row =
  sp_id :: int
  sp_parking_lot_id :: "int option"
  sp_spot_number :: string
  sp_row_number :: "int option"
  sp_col_number :: "int option"
  sp_status :: "string option"

text \<open>
  A \<^verbatim>\<open>TIME\<close> is the number of seconds since midnight, a \<^verbatim>\<open>DATE\<close> the number of days since
  1970-01-01, a timestamp the number of seconds since 1970-01-01 00:00.
\<close>

record schedule_row =
  sc_id :: int
  sc_user_id :: "int option"
  sc_parking_lot_id :: "int option"
  sc_spot_number :: "string option"
  sc_start_time :: nat
  sc_end_time :: nat
  sc_date :: int
  sc_is_recurring :: "bool option"
  sc_recurring_days :: "nat list jsonb option"
  sc_location :: "string option"
  sc_parking_lot :: "string option"
  sc_status :: "string option"
  sc_created_at :: timestamp
  sc_updated_at :: timestamp

text \<open>Each \<^verbatim>\<open>SERIAL\<close> key draws from its own sequence, kept beside the table.\<close>

record store =
  users :: "user_row list"
  users_seq :: int
  parking_lots :: "lot_row list"
  parking_lots_seq :: int
  spots :: "spot_row list"
  schedules :: "schedule_row list"
  schedules_seq :: int

definition int4 :: "int \<Rightarrow> bool" where
  "int4 n = (- 2147483648 \<le> n \<and> n \<le> 2147483647)"

fun int4_opt :: "int option \<Rightarrow> bool" where
  "int4_opt None = True"
| "int4_opt (Some n) = int4 n"

text \<open>\<^verbatim>\<open>VARCHAR(n)\<close>: at most \<open>n\<close> characters.\<close>

fun fits :: "nat \<Rightarrow> string option \<Rightarrow> bool" where
  "fits n None = True"
| "fits n (Some s) = (length s \<le> n)"

text \<open>A \<^verbatim>\<open>CHECK (c IN (...))\<close> constraint passes on \<^verbatim>\<open>NULL\<close>.\<close>

fun check_in :: "string list \<Rightarrow> string option \<Rightarrow> bool" where
  "check_in vs None = True"
| "check_in vs (Some v) = (v \<in> set vs)"

text \<open>A foreign key passes on \<^verbatim>\<open>NULL\<close> and on a key of the referenced table.\<close>

fun references :: "int list \<Rightarrow> int option \<Rightarrow> bool" where
  "references ks None = True"
| "references ks (Some k) = (k \<in> set ks)"

text \<open>The error of the first check that fails, in the order the checks are listed.\<close>

fun first_error :: "(bool \<times> db_error) list \<Rightarrow> db_error option" where
  "first_error [] = None"
| "first_error ((ok, e) # cs) = (if ok then first_error cs else Some e)"

subsection \<open>Statements on \<^verbatim>\<open>parking_lots\<close>\<close>

text \<open>
  \<^verbatim>\<open>INSERT INTO parking_lots (name, rows, cols, spaces, merged_aisles) VALUES (...)\<close>.
  An integer out of range fails before the statement runs; the other violations (the
  constraints of the table, in \<open>lot_constraints\<close>) are found when the row, with its key
  drawn from the sequence, is formed.
\<close>

definition lot_constraints ::
  "store \<Rightarrow> int \<Rightarrow> string option \<Rightarrow> int option \<Rightarrow> int option \<Rightarrow> db_error option" where
  "lot_constraints s i name rows cols =
     first_error
       [(fits 255 name, StringTooLong),
        (name \<noteq> None, NotNullViolation ''name''),
        (rows \<noteq> None, NotNullViolation ''rows''),
        (cols \<noteq> None, NotNullViolation ''cols''),
        (i \<notin> set (map l_id (parking_lots s)), UniqueViolation ''parking_lots_pkey'')]"

definition insert_lot ::
  "timestamp \<Rightarrow> store \<Rightarrow> string option \<Rightarrow> int option \<Rightarrow> int option \<Rightarrow>
   coord list jsonb option \<Rightarrow> coord list jsonb option \<Rightarrow> (db_error + lot_row) \<times> store" where
  "insert_lot now s name rows cols spaces aisles =
     (if \<not> (int4_opt rows \<and> int4_opt cols) then (Inl NumericOutOfRange, s)
      else
        let i = parking_lots_seq s;
            s1 = s\<lparr>parking_lots_seq := i + 1\<rparr>
        in case lot_constraints s i name rows cols of
             Some e \<Rightarrow> (Inl e, s1)
           | None \<Rightarrow>
               let row = \<lparr>l_id = i, l_name = the name, l_rows = the rows, l_cols = the cols,
                          l_spaces = spaces, l_merged_aisles = aisles,
                          l_created_at = now, l_updated_at = now\<rparr>
               in (Inr row, s1\<lparr>parking_lots := parking_lots s1 @ [row]\<rparr>))"


section \<open>Responses and drivers\<close>

datatype 'a response =
    OK 'a
  | Created 'a
  | BadRequest string
  | NotFound string
  | Conflict string
  | ServerError string "db_error option"

fun status_code :: "'a response \<Rightarrow> nat" where
  "status_code (OK _) = 200"
| "status_code (Created _) = 201"
| "status_code (BadRequest _) = 400"
| "status_code (NotFound _) = 404"
| "status_code (Conflict _) = 409"
| "status_code (ServerError _ _) = 500"

text \<open>
  pg-promise expands the named placeholders of a query from the properties of the values
  object. A name is made of letters, digits, \<^verbatim>\<open>$\<close>, \<^verbatim>\<open>_\<close> and \<^verbatim>\<open>.\<close>; a placeholder whose
  name has no such property makes the call fail before anything is sent, and text between
  the braces that is no name is not a placeholder and reaches PostgreSQL as it stands,
  where \<^verbatim>\<open>${\<close> is a syntax error.
\<close>

definition pgp_name_char :: "char \<Rightarrow> bool" where
  "pgp_name_char c =
     (let n = (of_char c :: nat) in
        (97 \<le> n \<and> n \<le> 122) \<or> (65 \<le> n \<and> n \<le> 90) \<or> (48 \<le> n \<and> n \<le> 57)
        \<or> c = CHR ''$'' \<or> c = CHR ''_'' \<or> c = CHR ''.'')"

definition pgp_variable :: "string \<Rightarrow> bool" where
  "pgp_variable v = (v \<noteq> [] \<and> list_all pgp_name_char v)"

definition pgp_format :: "string list \<Rightarrow> string list \<Rightarrow> db_error option" where
  "pgp_format props placeholders =
     (if list_ex (\<lambda>v. pgp_variable v \<and> v \<notin> set props) placeholders then Some PropertyMissing
      else if list_ex (\<lambda>v. \<not> pgp_variable v) placeholders then Some SyntaxError
      else None)"

fun present :: "string \<Rightarrow> 'a field \<Rightarrow> string list" where
  "present n Undefined = []"
| "present n _ = [n]"

text \<open>
  A present document written as JSON, \<^verbatim>\<open>NULL\<close> otherwise: what pg-promise makes of a
  property bound to a \<^verbatim>\<open>JSONB\<close> column, and what \<^verbatim>\<open>x ? JSON.stringify(x) : null\<close> gives.
\<close>

fun json_or_null :: "'a field \<Rightarrow> 'a jsonb option" where
  "json_or_null (Val v) = Some (Json v)"
| "json_or_null _ = None"


section \<open>Parking lots\<close>

record lot_body =
  lb_name :: "string field"
  lb_rows :: "int field"
  lb_cols :: "int field"
  lb_spaces :: "coord list field"
  lb_mergedAisles :: "coord list field"
  lb_merged_aisles :: "coord list field"

text \<open>\<^verbatim>\<open>app.post('/api/parking-lots', ...)\<close> of the pool server.\<close>

definition pool_post_parking_lot ::
  "timestamp \<Rightarrow> store \<Rightarrow> lot_body \<Rightarrow> lot_row response \<times> store" where
  "pool_post_parking_lot now s b =
     (if falsy_str (lb_name b) \<or> falsy_num (lb_rows b) \<or> falsy_num (lb_cols b)
      then (BadRequest ''Name, rows, and cols are required'', s)
      else
        case insert_lot now s (sql_param (lb_name b)) (sql_param (lb_rows b))
               (sql_param (lb_cols b)) (Some (Json (or_empty (lb_spaces b))))
               (Some (Json (or_empty (lb_mergedAisles b)))) of
          (Inl e, s') \<Rightarrow> (ServerError ''Failed to create parking lot'' (Some e), s')
        | (Inr row, s') \<Rightarrow> (Created row, s'))"


definition lot_props :: "lot_body \<Rightarrow> string list" where
  "lot_props b =
     present ''name'' (lb_name b) @ present ''rows'' (lb_rows b) @ present ''cols'' (lb_cols b)
     @ present ''spaces'' (lb_spaces b) @ present ''merged_aisles'' (lb_merged_aisles b)"

text \<open>
  The failure of a pg-promise call goes through \<^verbatim>\<open>handleError\<close> to the global error
  handler, which answers 500 without the database's message.
\<close>

definition pgp_failed :: "'a response" where
  "pgp_failed = ServerError ''Internal server error'' None"

text \<open>\<^verbatim>\<open>app.post('/api/parking-lots', ...)\<close> of the pg-promise server (\<^verbatim>\<open>db.one\<close>).\<close>

definition pgp_post_parking_lot ::
  "timestamp \<Rightarrow> store \<Rightarrow> lot_body \<Rightarrow> int response \<times> store" where
  "pgp_post_parking_lot now s b =
     (case pgp_format (lot_props b) [''name'', ''rows'', ''cols'', ''spaces'', ''merged_aisles''] of
        Some e \<Rightarrow> (pgp_failed, s)
      | None \<Rightarrow>
          (case insert_lot now s (sql_param (lb_name b)) (sql_param (lb_rows b))
                  (sql_param (lb_cols b)) (json_or_null (lb_spaces b))
                  (json_or_null (lb_merged_aisles b)) of
             (Inl e, s') \<Rightarrow> (pgp_failed, s')
           | (Inr row, s') \<Rightarrow> (Created (l_id row), s')))"


section \<open>Schedules\<close>

text \<open>
  \<^verbatim>\<open>INSERT INTO schedules (user_id, parking_lot_id, spot_number, start_time, end_time, date,
  location, parking_lot, is_recurring, recurring_days, status) VALUES (...)\<close>. Every column
  is named by the statement, so a \<^verbatim>\<open>NULL\<close> is stored as such and no default applies.
\<close>

definition schedule_constraints ::
  "store \<Rightarrow> int \<Rightarrow> int option \<Rightarrow> int option \<Rightarrow> string option \<Rightarrow> nat option \<Rightarrow>
   nat option \<Rightarrow> int option \<Rightarrow> string option \<Rightarrow> string option \<Rightarrow> string option \<Rightarrow>
   db_error option" where
  "schedule_constraints s i user_id parking_lot_id spot_number start_time end_time date
     location parking_lot status =
     first_error
       [(fits 50 spot_number \<and> fits 255 location \<and> fits 100 parking_lot \<and> fits 50 status,
           StringTooLong),
        (start_time \<noteq> None, NotNullViolation ''start_time''),
        (end_time \<noteq> None, NotNullViolation ''end_time''),
        (date \<noteq> None, NotNullViolation ''date''),
        (check_in [''pending'', ''active'', ''completed'', ''cancelled''] status,
           CheckViolation ''schedules_status_check''),
        (i \<notin> set (map sc_id (schedules s)), UniqueViolation ''schedules_pkey''),
        (references (map u_id (users s)) user_id,
           ForeignKeyViolation ''schedules_user_id_fkey''),
        (references (map l_id (parking_lots s)) parking_lot_id,
           ForeignKeyViolation ''schedules_parking_lot_id_fkey'')]"

definition insert_schedule ::
  "timestamp \<Rightarrow> store \<Rightarrow> int option \<Rightarrow> int option \<Rightarrow> string option \<Rightarrow> nat option \<Rightarrow>
   nat option \<Rightarrow> int option \<Rightarrow> string option \<Rightarrow> string option \<Rightarrow> bool option \<Rightarrow>
   nat list jsonb option \<Rightarrow> string option \<Rightarrow> (db_error + schedule_row) \<times> store" where
  "insert_schedule now s user_id parking_lot_id spot_number start_time end_time date
     location parking_lot is_recurring recurring_days status =
     (if \<not> (int4_opt user_id \<and> int4_opt parking_lot_id) then (Inl NumericOutOfRange, s)
      else
        let i = schedules_seq s;
            s1 = s\<lparr>schedules_seq := i + 1\<rparr>
        in case schedule_constraints s i user_id parking_lot_id spot_number start_time
                  end_time date location parking_lot status of
             Some e \<Rightarrow> (Inl e, s1)
           | None \<Rightarrow>
               let row = \<lparr>sc_id = i, sc_user_id = user_id, sc_parking_lot_id = parking_lot_id,
                          sc_spot_number = spot_number, sc_start_time = the start_time,
                          sc_end_time = the end_time, sc_date = the date,
                          sc_is_recurring = is_recurring, sc_recurring_days = recurring_days,
                          sc_location = location, sc_parking_lot = parking_lot,
                          sc_status = status, sc_created_at = now, sc_updated_at = now\<rparr>
               in (Inr row, s1\<lparr>schedules := schedules s1 @ [row]\<rparr>))"

text \<open>\<^verbatim>\<open>DELETE FROM schedules WHERE id = i RETURNING id\<close>; no table refers to a schedule.\<close>

definition delete_schedule :: "store \<Rightarrow> int \<Rightarrow> (db_error + int list) \<times> store" where
  "delete_schedule s i =
     (if \<not> int4 i then (Inl NumericOutOfRange, s)
      else (Inr (map sc_id (filter (\<lambda>r. sc_id r = i) (schedules s))),
            s\<lparr>schedules := filter (\<lambda>r. sc_id r \<noteq> i) (schedules s)\<rparr>))"

record schedule_body =
  sb_user_id :: "int field"
  sb_parking_lot_id :: "int field"
  sb_spot_number :: "string field"
  sb_start_time :: "nat field"
  sb_end_time :: "nat field"
  sb_date :: "int field"
  sb_location :: "string field"
  sb_parking_lot :: "string field"
  sb_is_recurring :: "bool field"
  sb_recurring_days :: "nat list field"
  sb_status :: "string field"

text \<open>
  \<^verbatim>\<open>app.post('/api/schedules', ...)\<close> of the pool server. The status is the literal
  \<^verbatim>\<open>'pending'\<close> of the statement; \<^verbatim>\<open>recurring_days\<close> is stringified when truthy, else null.
\<close>

definition pool_post_schedule ::
  "timestamp \<Rightarrow> store \<Rightarrow> schedule_body \<Rightarrow> schedule_row response \<times> store" where
  "pool_post_schedule now s b =
     (case insert_schedule now s (sql_param (sb_user_id b)) (sql_param (sb_parking_lot_id b))
             (sql_param (sb_spot_number b)) (sql_param (sb_start_time b))
             (sql_param (sb_end_time b)) (sql_param (sb_date b)) (sql_param (sb_location b))
             (sql_param (sb_parking_lot b)) (sql_param (sb_is_recurring b))
             (json_or_null (sb_recurring_days b)) (Some ''pending'') of
        (Inl e, s') \<Rightarrow> (ServerError ''Failed to create schedule'' (Some e), s')
      | (Inr row, s') \<Rightarrow> (Created row, s'))"

definition schedule_props :: "schedule_body \<Rightarrow> string list" where
  "schedule_props b =
     present ''user_id'' (sb_user_id b) @ present ''parking_lot_id'' (sb_parking_lot_id b)
     @ present ''spot_number'' (sb_spot_number b) @ present ''start_time'' (sb_start_time b)
     @ present ''end_time'' (sb_end_time b) @ present ''date'' (sb_date b)
     @ present ''is_recurring'' (sb_is_recurring b)
     @ present ''recurring_days'' (sb_recurring_days b)
     @ present ''location'' (sb_location b) @ present ''parking_lot'' (sb_parking_lot b)
     @ present ''status'' (sb_status b)"

text \<open>
  \<^verbatim>\<open>app.post('/api/schedules', ...)\<close> of the pg-promise server: every column, the status
  too, is a placeholder filled from the body.
\<close>

definition pgp_post_schedule ::
  "timestamp \<Rightarrow> store \<Rightarrow> schedule_body \<Rightarrow> int response \<times> store" where
  "pgp_post_schedule now s b =
     (case pgp_format (schedule_props b)
             [''user_id'', ''parking_lot_id'', ''spot_number'', ''start_time'', ''end_time'',
              ''date'', ''is_recurring'', ''recurring_days'', ''location'', ''parking_lot'',
              ''status''] of
        Some e \<Rightarrow> (pgp_failed, s)
      | None \<Rightarrow>
          (case insert_schedule now s (sql_param (sb_user_id b))
                  (sql_param (sb_parking_lot_id b)) (sql_param (sb_spot_number b))
                  (sql_param (sb_start_time b)) (sql_param (sb_end_time b))
                  (sql_param (sb_date b)) (sql_param (sb_location b))
                  (sql_param (sb_parking_lot b)) (sql_param (sb_is_recurring b))
                  (json_or_null (sb_recurring_days b)) (sql_param (sb_status b)) of
             (Inl e, s') \<Rightarrow> (pgp_failed, s')
           | (Inr row, s') \<Rightarrow> (Created (sc_id row), s')))"

text \<open>\<^verbatim>\<open>app.delete('/api/schedules/:id', ...)\<close> of the pg-promise server.\<close>

definition pgp_delete_schedule :: "store \<Rightarrow> int \<Rightarrow> int response \<times> store" where
  "pgp_delete_schedule s i =
     (case pgp_format [''id''] [''id''] of
        Some e \<Rightarrow> (pgp_failed, s)
      | None \<Rightarrow>
          (case delete_schedule s i of
             (Inl e, s') \<Rightarrow> (pgp_failed, s')
           | (Inr [], s') \<Rightarrow> (NotFound ''Not Found'', s')
           | (Inr [k], s') \<Rightarrow> (OK k, s')
           | (Inr _, s') \<Rightarrow> (pgp_failed, s')))"

text \<open>What a response decides: its status code and, for an error, the error it names.\<close>

fun error_kind :: "'a response \<Rightarrow> (string \<times> db_error option) option" where
  "error_kind (OK _) = None"
| "error_kind (Created _) = None"
| "error_kind (BadRequest m) = Some (m, None)"
| "error_kind (NotFound m) = Some (m, None)"
| "error_kind (Conflict m) = Some (m, None)"
| "error_kind (ServerError m e) = Some (m, e)"

definition decision :: "'a response \<Rightarrow> nat \<times> (string \<times> db_error option) option" where
  "decision r = (status_code r, error_kind r)"

subsection \<open>Overlap of two schedules\<close>

text \<open>
  The vocabulary of the conflict rule: a schedule that does not recur is in effect on its
  date only; a recurring one on every date from its creation on whose weekday (0 for
  Sunday; 1970-01-01 was a Thursday) is among its recurring days. Two schedules conflict
  on a date when both are in effect there and their half-open time intervals intersect.
\<close>

definition weekday :: "int \<Rightarrow> nat" where
  "weekday d = nat ((d + 4) mod 7)"

definition in_effect :: "schedule_row \<Rightarrow> int \<Rightarrow> bool" where
  "in_effect r d =
     (if sc_is_recurring r = Some True
      then (case sc_recurring_days r of
              Some (Json ds) \<Rightarrow> int (sc_created_at r div 86400) \<le> d \<and> weekday d \<in> set ds
            | _ \<Rightarrow> False)
      else d = sc_date r)"

definition conflict_on :: "schedule_row \<Rightarrow> schedule_row \<Rightarrow> int \<Rightarrow> bool" where
  "conflict_on a b d =
     (in_effect a d \<and> in_effect b d
      \<and> sc_start_time a < sc_end_time b \<and> sc_start_time b < sc_end_time a)"

definition same_spot :: "schedule_row \<Rightarrow> schedule_row \<Rightarrow> bool" where
  "same_spot a b =
     (sc_parking_lot_id a = sc_parking_lot_id b \<and> sc_spot_number a = sc_spot_number b)"

definition non_cancelled :: "schedule_row \<Rightarrow> bool" where
  "non_cancelled r = (sc_status r \<noteq> Some ''cancelled'')"

section \<open>Users\<close>

text \<open>
  \<^verbatim>\<open>INSERT INTO users(name, email, phone, password_hash, role, department, status, avatar)\<close>,
  on the table that has the \<^verbatim>\<open>password_hash\<close> column.
\<close>

definition user_constraints ::
  "store \<Rightarrow> int \<Rightarrow> string option \<Rightarrow> string option \<Rightarrow> string option \<Rightarrow> string option \<Rightarrow>
   string option \<Rightarrow> string option \<Rightarrow> string option \<Rightarrow> db_error option" where
  "user_constraints s i name email phone password_hash role department status =
     first_error
       [(fits 255 name \<and> fits 255 email \<and> fits 50 phone \<and> fits 50 role
           \<and> fits 100 department \<and> fits 50 status, StringTooLong),
        (name \<noteq> None, NotNullViolation ''name''),
        (email \<noteq> None, NotNullViolation ''email''),
        (password_hash \<noteq> None, NotNullViolation ''password_hash''),
        (role \<noteq> None, NotNullViolation ''role''),
        (check_in [''admin'', ''user''] role, CheckViolation ''users_role_check''),
        (check_in [''active'', ''inactive''] status, CheckViolation ''users_status_check''),
        (i \<notin> set (map u_id (users s)), UniqueViolation ''users_pkey''),
        (the email \<notin> set (map u_email (users s)), UniqueViolation ''users_email_key'')]"

definition insert_user ::
  "timestamp \<Rightarrow> store \<Rightarrow> string option \<Rightarrow> string option \<Rightarrow> string option \<Rightarrow> string option \<Rightarrow>
   string option \<Rightarrow> string option \<Rightarrow> string option \<Rightarrow> string option \<Rightarrow>
   (db_error + user_row) \<times> store" where
  "insert_user now s name email phone password_hash role department status avatar =
     (let i = users_seq s;
          s1 = s\<lparr>users_seq := i + 1\<rparr>
      in case user_constraints s i name email phone password_hash role department status of
           Some e \<Rightarrow> (Inl e, s1)
         | None \<Rightarrow>
             let row = \<lparr>u_id = i, u_name = the name, u_email = the email, u_phone = phone,
                        u_password_hash = the password_hash, u_role = the role,
                        u_department = department, u_status = status, u_avatar = avatar,
                        u_created_at = now, u_updated_at = now\<rparr>
             in (Inr row, s1\<lparr>users := users s1 @ [row]\<rparr>))"

text \<open>\<^verbatim>\<open>UPDATE users SET status = v WHERE id = i RETURNING id\<close>, with the table's trigger.\<close>

definition update_user_status ::
  "timestamp \<Rightarrow> store \<Rightarrow> int \<Rightarrow> string option \<Rightarrow> (db_error + int list) \<times> store" where
  "update_user_status now s i v =
     (if \<not> int4 i then (Inl NumericOutOfRange, s)
      else if filter (\<lambda>u. u_id u = i) (users s) = [] then (Inr [], s)
      else if \<not> fits 50 v then (Inl StringTooLong, s)
      else if \<not> check_in [''active'', ''inactive''] v
        then (Inl (CheckViolation ''users_status_check''), s)
      else (Inr (map u_id (filter (\<lambda>u. u_id u = i) (users s))),
            s\<lparr>users := map (\<lambda>u. if u_id u = i then u\<lparr>u_status := v, u_updated_at := now\<rparr>
                                  else u) (users s)\<rparr>))"

record user_body =
  ub_name :: "string field"
  ub_email :: "string field"
  ub_phone :: "string field"
  ub_password :: "string field"
  ub_role :: "string field"
  ub_department :: "string field"
  ub_status :: "string field"
  ub_avatar :: "string field"

text \<open>The columns the user queries return: all but the password hash and \<^verbatim>\<open>updated_at\<close>.\<close>

record user_view =
  v_id :: int
  v_name :: string
  v_email :: string
  v_phone :: "string option"
  v_role :: string
  v_department :: "string option"
  v_status :: "string option"
  v_avatar :: "string option"
  v_created_at :: timestamp

definition user_view_of :: "user_row \<Rightarrow> user_view" where
  "user_view_of u =
     \<lparr>v_id = u_id u, v_name = u_name u, v_email = u_email u, v_phone = u_phone u,
      v_role = u_role u, v_department = u_department u, v_status = u_status u,
      v_avatar = u_avatar u, v_created_at = u_created_at u\<rparr>"

text \<open>
  \<^verbatim>\<open>app.post('/api/users', ...)\<close> of the pg-promise server. \<open>hash\<close> stands for
  \<^verbatim>\<open>bcrypt.hash(password, 10)\<close>. The lookup compares the email as submitted; the row is
  stored with the email in lower case.
\<close>

definition pgp_post_user ::
  "(string \<Rightarrow> string) \<Rightarrow> timestamp \<Rightarrow> store \<Rightarrow> user_body \<Rightarrow> user_view response \<times> store" where
  "pgp_post_user hash now s b =
     (if falsy_str (ub_name b) \<or> falsy_str (ub_email b) \<or> falsy_str (ub_role b)
         \<or> falsy_str (ub_password b)
      then (BadRequest
              ''Missing required fields: name, email, password, and role are required'', s)
      else
        case filter (\<lambda>u. u_email u = the_val (ub_email b)) (users s) of
          [] \<Rightarrow>
            (case insert_user now s (Some (the_val (ub_name b)))
                    (Some (toLowerCase (the_val (ub_email b)))) (or_null (ub_phone b))
                    (Some (hash (the_val (ub_password b)))) (Some (the_val (ub_role b)))
                    (Some (or_default (ub_department b) ''General''))
                    (Some (or_default (ub_status b) ''active'')) (or_null (ub_avatar b)) of
               (Inl e, s') \<Rightarrow> (pgp_failed, s')
             | (Inr row, s') \<Rightarrow> (Created (user_view_of row), s'))
        | [u] \<Rightarrow> (Conflict ''A user with this email already exists'', s)
        | _ \<Rightarrow> (pgp_failed, s))"

text \<open>\<^verbatim>\<open>app.get('/api/users/:id', ...)\<close> of the pg-promise server.\<close>

definition pgp_get_user :: "store \<Rightarrow> int \<Rightarrow> user_view response" where
  "pgp_get_user s i =
     (case pgp_format [''id''] [''id''] of
        Some e \<Rightarrow> pgp_failed
      | None \<Rightarrow>
          (if \<not> int4 i then pgp_failed
           else (case filter (\<lambda>u. u_id u = i) (users s) of
                   [] \<Rightarrow> NotFound ''Not Found''
                 | [u] \<Rightarrow> OK (user_view_of u)
                 | _ \<Rightarrow> pgp_failed)))"

text \<open>
  \<^verbatim>\<open>app.delete('/api/users/:id', ...)\<close> of the pg-promise server. The query is the
  single-quoted string
  \<^verbatim>\<open>UPDATE users SET status=${"inactive"} WHERE id=${id} RETURNING id\<close>
  with the values \<^verbatim>\<open>req.params\<close>, whose only property is \<^verbatim>\<open>id\<close>: the text between the
  first pair of braces is the word \<^verbatim>\<open>inactive\<close> with its double quotes.
\<close>

definition pgp_delete_user :: "timestamp \<Rightarrow> store \<Rightarrow> int \<Rightarrow> int response \<times> store" where
  "pgp_delete_user now s i =
     (case pgp_format [''id''] [CHR 0x22 # ''inactive'' @ [CHR 0x22], ''id''] of
        Some e \<Rightarrow> (pgp_failed, s)
      | None \<Rightarrow>
          (case update_user_status now s i (Some ''inactive'') of
             (Inl e, s') \<Rightarrow> (pgp_failed, s')
           | (Inr [], s') \<Rightarrow> (NotFound ''Not Found'', s')
           | (Inr [k], s') \<Rightarrow> (OK k, s')
           | (Inr _, s') \<Rightarrow> (pgp_failed, s')))"

section \<open>Routing\<close>

text \<open>
  Express tries the routes in the order of their registration; a request no route
  matches reaches the last \<^verbatim>\<open>app.use\<close>, which answers 404. A path is the list of its
  segments. A literal segment matches without regard to case, a parameter matches any
  non-empty segment.
\<close>

datatype verb = GET | POST | PUT | PATCH | DELETE

datatype seg = Lit string | Param string

fun seg_match :: "seg \<Rightarrow> string \<Rightarrow> bool" where
  "seg_match (Lit l) x = (toLowerCase x = toLowerCase l)"
| "seg_match (Param _) x = (x \<noteq> [])"

fun path_match :: "seg list \<Rightarrow> string list \<Rightarrow> bool" where
  "path_match [] [] = True"
| "path_match (p # ps) (x # xs) = (seg_match p x \<and> path_match ps xs)"
| "path_match _ _ = False"

definition routed :: "(verb \<times> seg list) list \<Rightarrow> verb \<Rightarrow> string list \<Rightarrow> bool" where
  "routed rs m p = list_ex (\<lambda>r. fst r = m \<and> path_match (snd r) p) rs"

definition pool_routes :: "(verb \<times> seg list) list" where
  "pool_routes =
     [(GET, []),
      (GET, [Lit ''api'', Lit ''health'']),
      (GET, [Lit ''api'', Lit ''parking-lots'']),
      (GET, [Lit ''api'', Lit ''parking-lots'', Param ''id'']),
      (POST, [Lit ''api'', Lit ''parking-lots'']),
      (PUT, [Lit ''api'', Lit ''parking-lots'', Param ''id'']),
      (DELETE, [Lit ''api'', Lit ''parking-lots'', Param ''id'']),
      (GET, [Lit ''api'', Lit ''users'']),
      (GET, [Lit ''api'', Lit ''users'', Param ''id'']),
      (POST, [Lit ''api'', Lit ''users'']),
      (PUT, [Lit ''api'', Lit ''users'', Param ''id'']),
      (GET, [Lit ''api'', Lit ''schedules'']),
      (POST, [Lit ''api'', Lit ''schedules'']),
      (GET, [Lit ''api'', Lit ''issues'']),
      (POST, [Lit ''api'', Lit ''issues'']),
      (PATCH, [Lit ''api'', Lit ''issues'', Param ''id'']),
      (DELETE, [Lit ''api'', Lit ''issues'', Param ''id''])]"

definition pgp_routes :: "(verb \<times> seg list) list" where
  "pgp_routes =
     [(GET, []),
      (GET, [Lit ''health'']),
      (POST, [Lit ''api'', Lit ''login'']),
      (GET, [Lit ''api'', Lit ''users'']),
      (GET, [Lit ''api'', Lit ''users'', Param ''id'']),
      (GET, [Lit ''api'', Lit ''users'', Lit ''email'', Param ''email'']),
      (POST, [Lit ''api'', Lit ''users'']),
      (PUT, [Lit ''api'', Lit ''users'', Param ''id'']),
      (DELETE, [Lit ''api'', Lit ''users'', Param ''id'']),
      (GET, [Lit ''api'', Lit ''vehicles'']),
      (GET, [Lit ''api'', Lit ''vehicles'', Lit ''user'', Param ''userId'']),
      (GET, [Lit ''api'', Lit ''vehicles'', Param ''id'']),
      (POST, [Lit ''api'', Lit ''vehicles'']),
      (PUT, [Lit ''api'', Lit ''vehicles'', Param ''id'']),
      (DELETE, [Lit ''api'', Lit ''vehicles'', Param ''id'']),
      (GET, [Lit ''api'', Lit ''parking-lots'']),
      (GET, [Lit ''api'', Lit ''parking-lots'', Param ''id'']),
      (POST, [Lit ''api'', Lit ''parking-lots'']),
      (PUT, [Lit ''api'', Lit ''parking-lots'', Param ''id'']),
      (DELETE, [Lit ''api'', Lit ''parking-lots'', Param ''id'']),
      (GET, [Lit ''api'', Lit ''schedules'']),
      (GET, [Lit ''api'', Lit ''schedules'', Lit ''user'', Param ''userId'']),
      (GET, [Lit ''api'', Lit ''schedules'', Lit ''lot'', Param ''lotId'']),
      (GET, [Lit ''api'', Lit ''schedules'', Param ''id'']),
      (POST, [Lit ''api'', Lit ''schedules'']),
      (PUT, [Lit ''api'', Lit ''schedules'', Param ''id'']),
      (DELETE, [Lit ''api'', Lit ''schedules'', Param ''id'']),
      (GET, [Lit ''api'', Lit ''issues'']),
      (GET, [Lit ''api'', Lit ''issues'', Lit ''unread'']),
      (GET, [Lit ''api'', Lit ''issues'', Lit ''status'', Param ''status'']),
      (GET, [Lit ''api'', Lit ''issues'', Param ''id'']),
      (POST, [Lit ''api'', Lit ''issues'']),
      (PUT, [Lit ''api'', Lit ''issues'', Param ''id'']),
      (PATCH, [Lit ''api'', Lit ''issues'', Param ''id'', Lit ''read'']),
      (DELETE, [Lit ''api'', Lit ''issues'', Param ''id''])]"

text \<open>
  The answer to a request outside the routes: \<open>None\<close> when a route takes the request,
  else the 404 of the fallback handler, which reads and writes no table.
\<close>

definition pool_unrouted :: "verb \<Rightarrow> string list \<Rightarrow> store \<Rightarrow> (unit response \<times> store) option" where
  "pool_unrouted m p s =
     (if routed pool_routes m p then None else Some (NotFound ''Route not found'', s))"

definition pgp_unrouted :: "verb \<Rightarrow> string list \<Rightarrow> store \<Rightarrow> (unit response \<times> store) option" where
  "pgp_unrouted m p s =
     (if routed pgp_routes m p then None else Some (NotFound ''Endpoint not found'', s))"

section \<open>Example data\<close>

text \<open>The sample data of the setup script: the administrator, the North Lot and its spot A40.\<close>

definition campus_store :: store where
  "campus_store =
     \<lparr>users = [\<lparr>u_id = 1, u_name = ''Admin User'', u_email = ''admin@calvin.edu'',
                 u_phone = Some ''+1-616-555-0100'', u_password_hash = ''$2b$10$rKZrF8qVzKJx'',
                 u_role = ''admin'', u_department = Some ''IT'', u_status = Some ''active'',
                 u_avatar = None, u_created_at = 0, u_updated_at = 0\<rparr>],
      users_seq = 2,
      parking_lots = [\<lparr>l_id = 1, l_name = ''North Lot'', l_rows = 4, l_cols = 10,
                        l_spaces = Some (Json []), l_merged_aisles = Some (Json []),
                        l_created_at = 0, l_updated_at = 0\<rparr>],
      parking_lots_seq = 2,
      spots = [\<lparr>sp_id = 40, sp_parking_lot_id = Some 1, sp_spot_number = ''A40'',
                 sp_row_number = Some 3, sp_col_number = Some 9,
                 sp_status = Some ''available''\<rparr>],
      schedules = [],
      schedules_seq = 1\<rparr>"

text \<open>A booking of spot A40 on day 20486 from \<open>t1\<close> to \<open>t2\<close>, and the row it is stored as.\<close>

definition booking :: "nat \<Rightarrow> nat \<Rightarrow> string field \<Rightarrow> schedule_body" where
  "booking t1 t2 st =
     \<lparr>sb_user_id = Val 1, sb_parking_lot_id = Val 1, sb_spot_number = Val ''A40'',
      sb_start_time = Val t1, sb_end_time = Val t2, sb_date = Val 20486, sb_location = Null,
      sb_parking_lot = Val ''North Lot'', sb_is_recurring = Val False,
      sb_recurring_days = Null, sb_status = st\<rparr>"

definition booked :: "int \<Rightarrow> nat \<Rightarrow> nat \<Rightarrow> string option \<Rightarrow> timestamp \<Rightarrow> schedule_row" where
  "booked i t1 t2 st now =
     \<lparr>sc_id = i, sc_user_id = Some 1, sc_parking_lot_id = Some 1,
      sc_spot_number = Some ''A40'', sc_start_time = t1, sc_end_time = t2, sc_date = 20486,
      sc_is_recurring = Some False, sc_recurring_days = None, sc_location = None,
      sc_parking_lot = Some ''North Lot'', sc_status = st, sc_created_at = now,
      sc_updated_at = now\<rparr>"

section \<open>Properties of the parking-lot handlers\<close>

lemma first_error_None: "first_error cs = None \<longleftrightarrow> list_all fst cs"
  by (induction cs) (auto split: if_splits)

lemma insert_lot_accepts:
  assumes "int4 r" "int4 c" "length n \<le> 255"
    and "parking_lots_seq s \<notin> set (map l_id (parking_lots s))"
  shows "insert_lot now s (Some n) (Some r) (Some c) sp ai
           = (Inr \<lparr>l_id = parking_lots_seq s, l_name = n, l_rows = r, l_cols = c, l_spaces = sp,
                    l_merged_aisles = ai, l_created_at = now, l_updated_at = now\<rparr>,
              s\<lparr>parking_lots_seq := parking_lots_seq s + 1,
                parking_lots := parking_lots s @
                  [\<lparr>l_id = parking_lots_seq s, l_name = n, l_rows = r, l_cols = c, l_spaces = sp,
                    l_merged_aisles = ai, l_created_at = now, l_updated_at = now\<rparr>]\<rparr>)"
  using assms by (simp add: insert_lot_def lot_constraints_def Let_def)

lemma pool_post_lot_codes:
  "status_code (fst (pool_post_parking_lot now s b)) \<in> {201, 400, 500}"
  by (simp add: pool_post_parking_lot_def split: prod.splits sum.splits)

lemma pool_post_lot_not_400:
  "\<not> (falsy_str (lb_name b) \<or> falsy_num (lb_rows b) \<or> falsy_num (lb_cols b)) \<Longrightarrow>
   status_code (fst (pool_post_parking_lot now s b)) \<in> {201, 500}"
  by (simp add: pool_post_parking_lot_def split: prod.splits sum.splits)

lemma pgp_post_lot_codes:
  "status_code (fst (pgp_post_parking_lot now s b)) \<in> {201, 500}"
  by (simp add: pgp_post_parking_lot_def pgp_failed_def split: option.splits prod.splits sum.splits)

text \<open>
  C5 (as stated): lot creation answers 400, creating no lot, when rows or cols is not
  positive or an aisle coordinate is out of bounds or duplicated. The pool server
  creates a lot of \<open>-1\<close> rows whose aisle list names the cell \<open>(7, 7)\<close> twice.
\<close>

theorem post_parking_lot_negative_rows_created:
  "pool_post_parking_lot 0
     \<lparr>users = [], users_seq = 1, parking_lots = [], parking_lots_seq = 1, spots = [],
      schedules = [], schedules_seq = 1\<rparr>
     \<lparr>lb_name = Val ''Lot'', lb_rows = Val (- 1), lb_cols = Val 10, lb_spaces = Undefined,
      lb_mergedAisles = Val [(7, 7), (7, 7)], lb_merged_aisles = Undefined\<rparr>
   = (Created \<lparr>l_id = 1, l_name = ''Lot'', l_rows = - 1, l_cols = 10,
        l_spaces = Some (Json []), l_merged_aisles = Some (Json [(7, 7), (7, 7)]),
        l_created_at = 0, l_updated_at = 0\<rparr>,
      \<lparr>users = [], users_seq = 1,
       parking_lots = [\<lparr>l_id = 1, l_name = ''Lot'', l_rows = - 1, l_cols = 10,
        l_spaces = Some (Json []), l_merged_aisles = Some (Json [(7, 7), (7, 7)]),
        l_created_at = 0, l_updated_at = 0\<rparr>], parking_lots_seq = 2,
       spots = [], schedules = [], schedules_seq = 1\<rparr>)"
  by (simp add: pool_post_parking_lot_def insert_lot_def lot_constraints_def int4_def Let_def)

text \<open>
  C5 (amended): in the pool server lot creation answers 400, creating no lot, exactly
  when name, rows or cols is absent, null, empty or zero. Nothing else is validated:
  whatever the signs of rows and cols and whatever the aisle coordinates, a request with
  the three values present is stored as submitted and answered 201 when the integers are
  in range, the name has at most 255 characters and the key is fresh (and 500 otherwise).
  Lot creation in the pg-promise server validates nothing and never answers 400.
\<close>

theorem post_parking_lot_checks_presence_only:
  "(falsy_str (lb_name b1) \<or> falsy_num (lb_rows b1) \<or> falsy_num (lb_cols b1) \<longrightarrow>
      pool_post_parking_lot now s b1 = (BadRequest ''Name, rows, and cols are required'', s))
   \<and> (\<not> (falsy_str (lb_name b2) \<or> falsy_num (lb_rows b2) \<or> falsy_num (lb_cols b2)) \<longrightarrow>
        status_code (fst (pool_post_parking_lot now s b2)) \<in> {201, 500})
   \<and> (n \<noteq> [] \<and> length n \<le> 255 \<and> r \<noteq> 0 \<and> int4 r \<and> c \<noteq> 0 \<and> int4 c
        \<and> parking_lots_seq s \<notin> set (map l_id (parking_lots s)) \<longrightarrow>
        pool_post_parking_lot now s
          \<lparr>lb_name = Val n, lb_rows = Val r, lb_cols = Val c, lb_spaces = sp,
           lb_mergedAisles = Val ai, lb_merged_aisles = ai'\<rparr>
        = (Created \<lparr>l_id = parking_lots_seq s, l_name = n, l_rows = r, l_cols = c,
                    l_spaces = Some (Json (or_empty sp)), l_merged_aisles = Some (Json ai),
                    l_created_at = now, l_updated_at = now\<rparr>,
           s\<lparr>parking_lots_seq := parking_lots_seq s + 1,
             parking_lots := parking_lots s @
               [\<lparr>l_id = parking_lots_seq s, l_name = n, l_rows = r, l_cols = c,
                 l_spaces = Some (Json (or_empty sp)), l_merged_aisles = Some (Json ai),
                 l_created_at = now, l_updated_at = now\<rparr>]\<rparr>))
   \<and> status_code (fst (pgp_post_parking_lot now s b3)) \<in> {201, 500}"
proof (intro conjI impI)
  assume "falsy_str (lb_name b1) \<or> falsy_num (lb_rows b1) \<or> falsy_num (lb_cols b1)"
  then show "pool_post_parking_lot now s b1
               = (BadRequest ''Name, rows, and cols are required'', s)"
    by (simp add: pool_post_parking_lot_def)
next
  assume "\<not> (falsy_str (lb_name b2) \<or> falsy_num (lb_rows b2) \<or> falsy_num (lb_cols b2))"
  then show "status_code (fst (pool_post_parking_lot now s b2)) \<in> {201, 500}"
    by (rule pool_post_lot_not_400)
next
  assume "n \<noteq> [] \<and> length n \<le> 255 \<and> r \<noteq> 0 \<and> int4 r \<and> c \<noteq> 0 \<and> int4 c
        \<and> parking_lots_seq s \<notin> set (map l_id (parking_lots s))"
  then show "pool_post_parking_lot now s
          \<lparr>lb_name = Val n, lb_rows = Val r, lb_cols = Val c, lb_spaces = sp,
           lb_mergedAisles = Val ai, lb_merged_aisles = ai'\<rparr>
        = (Created \<lparr>l_id = parking_lots_seq s, l_name = n, l_rows = r, l_cols = c,
                    l_spaces = Some (Json (or_empty sp)), l_merged_aisles = Some (Json ai),
                    l_created_at = now, l_updated_at = now\<rparr>,
           s\<lparr>parking_lots_seq := parking_lots_seq s + 1,
             parking_lots := parking_lots s @
               [\<lparr>l_id = parking_lots_seq s, l_name = n, l_rows = r, l_cols = c,
                 l_spaces = Some (Json (or_empty sp)), l_merged_aisles = Some (Json ai),
                 l_created_at = now, l_updated_at = now\<rparr>]\<rparr>)"
    by (simp add: pool_post_parking_lot_def insert_lot_accepts)
next
  show "status_code (fst (pgp_post_parking_lot now s b3)) \<in> {201, 500}"
    by (rule pgp_post_lot_codes)
qed

theorem post_parking_lot_checks_presence_only_witness:
  "pool_post_parking_lot 7 campus_store
     \<lparr>lb_name = Val ''West Lot'', lb_rows = Val 0, lb_cols = Val 8, lb_spaces = Val [],
      lb_mergedAisles = Val [], lb_merged_aisles = Undefined\<rparr>
     = (BadRequest ''Name, rows, and cols are required'', campus_store)
   \<and> status_code (fst (pool_post_parking_lot 7 campus_store
        \<lparr>lb_name = Val ''West Lot'', lb_rows = Val (- 3), lb_cols = Val 8, lb_spaces = Val [],
         lb_mergedAisles = Val [(9, 9)], lb_merged_aisles = Undefined\<rparr>)) \<in> {201, 500}
   \<and> pool_post_parking_lot 7 campus_store
        \<lparr>lb_name = Val ''West Lot'', lb_rows = Val (- 3), lb_cols = Val 8, lb_spaces = Null,
         lb_mergedAisles = Val [(9, 9), (9, 9)], lb_merged_aisles = Undefined\<rparr>
      = (Created \<lparr>l_id = 2, l_name = ''West Lot'', l_rows = - 3, l_cols = 8,
                  l_spaces = Some (Json []), l_merged_aisles = Some (Json [(9, 9), (9, 9)]),
                  l_created_at = 7, l_updated_at = 7\<rparr>,
         campus_store\<lparr>parking_lots_seq := 3,
           parking_lots := parking_lots campus_store @
             [\<lparr>l_id = 2, l_name = ''West Lot'', l_rows = - 3, l_cols = 8,
               l_spaces = Some (Json []), l_merged_aisles = Some (Json [(9, 9), (9, 9)]),
               l_created_at = 7, l_updated_at = 7\<rparr>]\<rparr>)
   \<and> status_code (fst (pgp_post_parking_lot 7 campus_store
        \<lparr>lb_name = Val ''West Lot'', lb_rows = Val 0, lb_cols = Val 8, lb_spaces = Val [],
         lb_mergedAisles = Undefined, lb_merged_aisles = Val []\<rparr>)) \<in> {201, 500}"
  using post_parking_lot_checks_presence_only
    [of "\<lparr>lb_name = Val ''West Lot'', lb_rows = Val 0, lb_cols = Val 8, lb_spaces = Val [],
          lb_mergedAisles = Val [], lb_merged_aisles = Undefined\<rparr>"
        7 campus_store
        "\<lparr>lb_name = Val ''West Lot'', lb_rows = Val (- 3), lb_cols = Val 8, lb_spaces = Val [],
          lb_mergedAisles = Val [(9, 9)], lb_merged_aisles = Undefined\<rparr>"
        "''West Lot''" "- 3" 8 Null "[(9, 9), (9, 9)]" Undefined
        "\<lparr>lb_name = Val ''West Lot'', lb_rows = Val 0, lb_cols = Val 8, lb_spaces = Val [],
          lb_mergedAisles = Undefined, lb_merged_aisles = Val []\<rparr>"]
  by (simp add: campus_store_def int4_def)














section \<open>Properties of the schedule handlers\<close>

lemma insert_schedule_shape:
  "insert_schedule now s u l sp st et d loc pl rc days status = (res, s') \<Longrightarrow>
   users s' = users s \<and> parking_lots s' = parking_lots s \<and> spots s' = spots s
   \<and> (case res of
         Inl e \<Rightarrow> schedules s' = schedules s
       | Inr row \<Rightarrow> schedules s' = schedules s @ [row] \<and> sc_status row = status
                     \<and> sc_id row = schedules_seq s
                     \<and> check_in [''pending'', ''active'', ''completed'', ''cancelled''] status)"
  by (auto simp: insert_schedule_def schedule_constraints_def Let_def first_error_None
           split: if_splits option.splits)

lemma pool_post_schedule_decision:
  "decision (fst (pool_post_schedule now s b)) =
     (if \<not> (int4_opt (sql_param (sb_user_id b)) \<and> int4_opt (sql_param (sb_parking_lot_id b)))
      then (500, Some (''Failed to create schedule'', Some NumericOutOfRange))
      else case schedule_constraints s (schedules_seq s) (sql_param (sb_user_id b))
                  (sql_param (sb_parking_lot_id b)) (sql_param (sb_spot_number b))
                  (sql_param (sb_start_time b)) (sql_param (sb_end_time b))
                  (sql_param (sb_date b)) (sql_param (sb_location b))
                  (sql_param (sb_parking_lot b)) (Some ''pending'') of
             Some e \<Rightarrow> (500, Some (''Failed to create schedule'', Some e))
           | None \<Rightarrow> (201, None))"
  by (simp add: pool_post_schedule_def insert_schedule_def decision_def Let_def
           split: option.splits)

lemma pgp_post_schedule_decision:
  "decision (fst (pgp_post_schedule now s b)) =
     (if pgp_format (schedule_props b)
           [''user_id'', ''parking_lot_id'', ''spot_number'', ''start_time'', ''end_time'',
            ''date'', ''is_recurring'', ''recurring_days'', ''location'', ''parking_lot'',
            ''status''] \<noteq> None
         \<or> \<not> (int4_opt (sql_param (sb_user_id b)) \<and> int4_opt (sql_param (sb_parking_lot_id b)))
         \<or> schedule_constraints s (schedules_seq s) (sql_param (sb_user_id b))
                  (sql_param (sb_parking_lot_id b)) (sql_param (sb_spot_number b))
                  (sql_param (sb_start_time b)) (sql_param (sb_end_time b))
                  (sql_param (sb_date b)) (sql_param (sb_location b))
                  (sql_param (sb_parking_lot b)) (sql_param (sb_status b)) \<noteq> None
      then (500, Some (''Internal server error'', None))
      else (201, None))"
  by (auto simp: pgp_post_schedule_def insert_schedule_def decision_def pgp_failed_def Let_def
           split: option.splits)

lemma pool_post_schedule_store:
  "snd (pool_post_schedule now s b) =
     (if \<not> (int4_opt (sql_param (sb_user_id b)) \<and> int4_opt (sql_param (sb_parking_lot_id b)))
      then s
      else case schedule_constraints s (schedules_seq s) (sql_param (sb_user_id b))
                  (sql_param (sb_parking_lot_id b)) (sql_param (sb_spot_number b))
                  (sql_param (sb_start_time b)) (sql_param (sb_end_time b))
                  (sql_param (sb_date b)) (sql_param (sb_location b))
                  (sql_param (sb_parking_lot b)) (Some ''pending'') of
             Some e \<Rightarrow> s\<lparr>schedules_seq := schedules_seq s + 1\<rparr>
           | None \<Rightarrow> s\<lparr>schedules_seq := schedules_seq s + 1,
                        schedules := schedules s @
                          [\<lparr>sc_id = schedules_seq s, sc_user_id = sql_param (sb_user_id b),
                            sc_parking_lot_id = sql_param (sb_parking_lot_id b),
                            sc_spot_number = sql_param (sb_spot_number b),
                            sc_start_time = the (sql_param (sb_start_time b)),
                            sc_end_time = the (sql_param (sb_end_time b)),
                            sc_date = the (sql_param (sb_date b)),
                            sc_is_recurring = sql_param (sb_is_recurring b),
                            sc_recurring_days = json_or_null (sb_recurring_days b),
                            sc_location = sql_param (sb_location b),
                            sc_parking_lot = sql_param (sb_parking_lot b),
                            sc_status = Some ''pending'', sc_created_at = now,
                            sc_updated_at = now\<rparr>]\<rparr>)"
  by (simp add: pool_post_schedule_def insert_schedule_def Let_def split: option.splits)

lemma pgp_post_schedule_store:
  "snd (pgp_post_schedule now s b) =
     (if pgp_format (schedule_props b)
           [''user_id'', ''parking_lot_id'', ''spot_number'', ''start_time'', ''end_time'',
            ''date'', ''is_recurring'', ''recurring_days'', ''location'', ''parking_lot'',
            ''status''] \<noteq> None
         \<or> \<not> (int4_opt (sql_param (sb_user_id b)) \<and> int4_opt (sql_param (sb_parking_lot_id b)))
      then s
      else case schedule_constraints s (schedules_seq s) (sql_param (sb_user_id b))
                  (sql_param (sb_parking_lot_id b)) (sql_param (sb_spot_number b))
                  (sql_param (sb_start_time b)) (sql_param (sb_end_time b))
                  (sql_param (sb_date b)) (sql_param (sb_location b))
                  (sql_param (sb_parking_lot b)) (sql_param (sb_status b)) of
             Some e \<Rightarrow> s\<lparr>schedules_seq := schedules_seq s + 1\<rparr>
           | None \<Rightarrow> s\<lparr>schedules_seq := schedules_seq s + 1,
                        schedules := schedules s @
                          [\<lparr>sc_id = schedules_seq s, sc_user_id = sql_param (sb_user_id b),
                            sc_parking_lot_id = sql_param (sb_parking_lot_id b),
                            sc_spot_number = sql_param (sb_spot_number b),
                            sc_start_time = the (sql_param (sb_start_time b)),
                            sc_end_time = the (sql_param (sb_end_time b)),
                            sc_date = the (sql_param (sb_date b)),
                            sc_is_recurring = sql_param (sb_is_recurring b),
                            sc_recurring_days = json_or_null (sb_recurring_days b),
                            sc_location = sql_param (sb_location b),
                            sc_parking_lot = sql_param (sb_parking_lot b),
                            sc_status = sql_param (sb_status b), sc_created_at = now,
                            sc_updated_at = now\<rparr>]\<rparr>)"
  by (auto simp: pgp_post_schedule_def insert_schedule_def Let_def split: option.splits)

lemma schedule_constraints_keys:
  "map sc_id (schedules s') = map sc_id (schedules s) \<Longrightarrow> users s' = users s \<Longrightarrow>
   parking_lots s' = parking_lots s \<Longrightarrow>
   schedule_constraints s' i u l sp st et d loc pl status
     = schedule_constraints s i u l sp st et d loc pl status"
  by (simp add: schedule_constraints_def)

lemma schedule_constraints_fresh:
  "i \<notin> set (map sc_id (schedules s)) \<Longrightarrow> j \<notin> set (map sc_id (schedules s')) \<Longrightarrow>
   users s' = users s \<Longrightarrow> parking_lots s' = parking_lots s \<Longrightarrow>
   schedule_constraints s' j u l sp st et d loc pl status
     = schedule_constraints s i u l sp st et d loc pl status"
  by (simp add: schedule_constraints_def)


lemma decision_codes: "decision r = (c, k) \<Longrightarrow> status_code r = c"
  by (simp add: decision_def)

lemma pool_post_schedule_codes:
  "status_code (fst (pool_post_schedule now s b)) \<in> {201, 500}"
  by (simp add: pool_post_schedule_def split: prod.splits sum.splits)

lemma pgp_post_schedule_codes:
  "status_code (fst (pgp_post_schedule now s b)) \<in> {201, 500}"
  by (simp add: pgp_post_schedule_def pgp_failed_def split: option.splits prod.splits sum.splits)

text \<open>
  C1 (as stated): a creation request that overlaps a non-cancelled schedule of the same
  spot is rejected and no row is inserted, so the schedules of a spot never overlap. In
  the pool server a booking of A40 from 09:00 to 10:30 followed by one of the same spot and
  date from 10:00 to 11:00 are both answered 201, and the two stored rows conflict.
\<close>

theorem post_schedule_overlapping_bookings_accepted:
  "pool_post_schedule 0 campus_store (booking 32400 37800 Undefined)
     = (Created (booked 1 32400 37800 (Some ''pending'') 0),
        campus_store\<lparr>schedules_seq := 2,
                       schedules := [booked 1 32400 37800 (Some ''pending'') 0]\<rparr>)
   \<and> pool_post_schedule 60
        (campus_store\<lparr>schedules_seq := 2,
                       schedules := [booked 1 32400 37800 (Some ''pending'') 0]\<rparr>)
        (booking 36000 39600 Undefined)
     = (Created (booked 2 36000 39600 (Some ''pending'') 60),
        campus_store\<lparr>schedules_seq := 3,
                       schedules := [booked 1 32400 37800 (Some ''pending'') 0,
                                     booked 2 36000 39600 (Some ''pending'') 60]\<rparr>)
   \<and> same_spot (booked 1 32400 37800 (Some ''pending'') 0)
                (booked 2 36000 39600 (Some ''pending'') 60)
   \<and> non_cancelled (booked 1 32400 37800 (Some ''pending'') 0)
   \<and> non_cancelled (booked 2 36000 39600 (Some ''pending'') 60)
   \<and> conflict_on (booked 1 32400 37800 (Some ''pending'') 0)
                  (booked 2 36000 39600 (Some ''pending'') 60) 20486"
  by (simp add: pool_post_schedule_def insert_schedule_def schedule_constraints_def
        campus_store_def booking_def booked_def int4_def Let_def same_spot_def
        non_cancelled_def conflict_on_def in_effect_def)

text \<open>
  C1 (amended): creating a schedule never answers 409 and makes no overlap check, in
  either server. The answer is 201 or 500, and it depends on the schedules already stored
  through their keys only: with the same keys, any other spots, dates, times and statuses
  in the stored rows give the same decision. An accepted request appends exactly one row
  to the rows already stored, and a rejected one leaves the table as it is.
\<close>

theorem post_schedule_makes_no_overlap_check:
  "status_code (fst (pool_post_schedule now s b)) \<in> {201, 500}
   \<and> status_code (fst (pgp_post_schedule now s b)) \<in> {201, 500}
   \<and> (map sc_id sch = map sc_id (schedules s) \<longrightarrow>
        decision (fst (pool_post_schedule now (s\<lparr>schedules := sch\<rparr>) b))
          = decision (fst (pool_post_schedule now s b))
        \<and> decision (fst (pgp_post_schedule now (s\<lparr>schedules := sch\<rparr>) b))
          = decision (fst (pgp_post_schedule now s b)))
   \<and> ((\<exists>row. fst (pool_post_schedule now s b) = Created row
              \<and> schedules (snd (pool_post_schedule now s b)) = schedules s @ [row])
        \<or> (status_code (fst (pool_post_schedule now s b)) = 500
            \<and> schedules (snd (pool_post_schedule now s b)) = schedules s))
   \<and> ((\<exists>row. fst (pgp_post_schedule now s b) = Created (sc_id row)
              \<and> schedules (snd (pgp_post_schedule now s b)) = schedules s @ [row])
        \<or> (status_code (fst (pgp_post_schedule now s b)) = 500
            \<and> schedules (snd (pgp_post_schedule now s b)) = schedules s))"
proof (intro conjI impI)
  show "status_code (fst (pool_post_schedule now s b)) \<in> {201, 500}"
    by (rule pool_post_schedule_codes)
  show "status_code (fst (pgp_post_schedule now s b)) \<in> {201, 500}"
    by (rule pgp_post_schedule_codes)
next
  assume k: "map sc_id sch = map sc_id (schedules s)"
  show "decision (fst (pool_post_schedule now (s\<lparr>schedules := sch\<rparr>) b))
          = decision (fst (pool_post_schedule now s b))"
    unfolding pool_post_schedule_decision
    using k by (simp add: schedule_constraints_keys [where s' = "s\<lparr>schedules := sch\<rparr>" and s = s])
  show "decision (fst (pgp_post_schedule now (s\<lparr>schedules := sch\<rparr>) b))
          = decision (fst (pgp_post_schedule now s b))"
    unfolding pgp_post_schedule_decision
    using k by (simp add: schedule_constraints_keys [where s' = "s\<lparr>schedules := sch\<rparr>" and s = s])
next
  obtain res s' where r: "insert_schedule now s (sql_param (sb_user_id b))
      (sql_param (sb_parking_lot_id b)) (sql_param (sb_spot_number b))
      (sql_param (sb_start_time b)) (sql_param (sb_end_time b)) (sql_param (sb_date b))
      (sql_param (sb_location b)) (sql_param (sb_parking_lot b))
      (sql_param (sb_is_recurring b)) (json_or_null (sb_recurring_days b))
      (Some ''pending'') = (res, s')"
    by (cases "insert_schedule now s (sql_param (sb_user_id b))
      (sql_param (sb_parking_lot_id b)) (sql_param (sb_spot_number b))
      (sql_param (sb_start_time b)) (sql_param (sb_end_time b)) (sql_param (sb_date b))
      (sql_param (sb_location b)) (sql_param (sb_parking_lot b))
      (sql_param (sb_is_recurring b)) (json_or_null (sb_recurring_days b))
      (Some ''pending'')") auto
  from insert_schedule_shape [OF r] r
  show "(\<exists>row. fst (pool_post_schedule now s b) = Created row
              \<and> schedules (snd (pool_post_schedule now s b)) = schedules s @ [row])
        \<or> (status_code (fst (pool_post_schedule now s b)) = 500
            \<and> schedules (snd (pool_post_schedule now s b)) = schedules s)"
    by (cases res) (simp_all add: pool_post_schedule_def)
next
  show "(\<exists>row. fst (pgp_post_schedule now s b) = Created (sc_id row)
              \<and> schedules (snd (pgp_post_schedule now s b)) = schedules s @ [row])
        \<or> (status_code (fst (pgp_post_schedule now s b)) = 500
            \<and> schedules (snd (pgp_post_schedule now s b)) = schedules s)"
  proof (cases "pgp_format (schedule_props b)
           [''user_id'', ''parking_lot_id'', ''spot_number'', ''start_time'', ''end_time'',
            ''date'', ''is_recurring'', ''recurring_days'', ''location'', ''parking_lot'',
            ''status'']")
    case (Some e)
    then show ?thesis by (simp add: pgp_post_schedule_def pgp_failed_def)
  next
    case None
    obtain res s' where r: "insert_schedule now s (sql_param (sb_user_id b))
        (sql_param (sb_parking_lot_id b)) (sql_param (sb_spot_number b))
        (sql_param (sb_start_time b)) (sql_param (sb_end_time b)) (sql_param (sb_date b))
        (sql_param (sb_location b)) (sql_param (sb_parking_lot b))
        (sql_param (sb_is_recurring b)) (json_or_null (sb_recurring_days b))
        (sql_param (sb_status b)) = (res, s')"
      by (cases "insert_schedule now s (sql_param (sb_user_id b))
        (sql_param (sb_parking_lot_id b)) (sql_param (sb_spot_number b))
        (sql_param (sb_start_time b)) (sql_param (sb_end_time b)) (sql_param (sb_date b))
        (sql_param (sb_location b)) (sql_param (sb_parking_lot b))
        (sql_param (sb_is_recurring b)) (json_or_null (sb_recurring_days b))
        (sql_param (sb_status b))") auto
    from insert_schedule_shape [OF r] r None show ?thesis
      by (cases res) (auto simp: pgp_post_schedule_def pgp_failed_def)
  qed
qed

theorem post_schedule_makes_no_overlap_check_witness:
  "status_code (fst (pool_post_schedule 60
      (campus_store\<lparr>schedules := [booked 1 32400 37800 (Some ''pending'') 0],
                     schedules_seq := 2\<rparr>) (booking 36000 39600 Null))) \<in> {201, 500}
   \<and> decision (fst (pool_post_schedule 60
        (campus_store\<lparr>schedules := [booked 1 32400 37800 (Some ''pending'') 0],
                       schedules_seq := 2\<rparr>
          \<lparr>schedules := [booked 1 0 1 (Some ''cancelled'') 0]\<rparr>) (booking 36000 39600 Null)))
     = decision (fst (pool_post_schedule 60
        (campus_store\<lparr>schedules := [booked 1 32400 37800 (Some ''pending'') 0],
                       schedules_seq := 2\<rparr>) (booking 36000 39600 Null)))
   \<and> decision (fst (pgp_post_schedule 60
        (campus_store\<lparr>schedules := [booked 1 32400 37800 (Some ''pending'') 0],
                       schedules_seq := 2\<rparr>
          \<lparr>schedules := [booked 1 0 1 (Some ''cancelled'') 0]\<rparr>) (booking 36000 39600 Null)))
     = decision (fst (pgp_post_schedule 60
        (campus_store\<lparr>schedules := [booked 1 32400 37800 (Some ''pending'') 0],
                       schedules_seq := 2\<rparr>) (booking 36000 39600 Null)))"
  using post_schedule_makes_no_overlap_check
    [where now = 60
       and s = "campus_store\<lparr>schedules := [booked 1 32400 37800 (Some ''pending'') 0],
                              schedules_seq := 2\<rparr>"
       and b = "booking 36000 39600 Null"
       and sch = "[booked 1 0 1 (Some ''cancelled'') 0]"]
  by (simp add: booked_def)




text \<open>
  C4 (as stated): every accepted creation persists the schedule with status pending, for
  all bodies. The pg-promise server stores the status of the body: a request with status
  active is answered 201 and its row is active.
\<close>

theorem post_schedule_stores_submitted_status:
  "pgp_post_schedule 0 campus_store (booking 32400 36000 (Val ''active''))
     = (Created 1,
        campus_store\<lparr>schedules_seq := 2,
                       schedules := [booked 1 32400 36000 (Some ''active'') 0]\<rparr>)"
  by (simp add: pgp_post_schedule_def insert_schedule_def schedule_constraints_def
        schedule_props_def pgp_format_def pgp_variable_def pgp_name_char_def
        campus_store_def booking_def booked_def int4_def Let_def)

text \<open>
  C4 (amended): in the pool server every accepted creation persists the new schedule with
  status pending. In the pg-promise server the persisted status is the status property of
  the body (\<^verbatim>\<open>NULL\<close> for null), one of pending, active, completed and cancelled when it is
  not null. In both servers creation leaves the spots, the lots and the users as they are.
\<close>

theorem post_schedule_persisted_status:
  "(\<forall>row. fst (pool_post_schedule now s b) = Created row \<longrightarrow>
        sc_status row = Some ''pending''
        \<and> schedules (snd (pool_post_schedule now s b)) = schedules s @ [row])
   \<and> (\<forall>k. fst (pgp_post_schedule now s b) = Created k \<longrightarrow>
        (\<exists>row. schedules (snd (pgp_post_schedule now s b)) = schedules s @ [row]
              \<and> sc_id row = k \<and> sc_status row = sql_param (sb_status b)
              \<and> check_in [''pending'', ''active'', ''completed'', ''cancelled'']
                    (sc_status row)))
   \<and> spots (snd (pool_post_schedule now s b)) = spots s
   \<and> parking_lots (snd (pool_post_schedule now s b)) = parking_lots s
   \<and> users (snd (pool_post_schedule now s b)) = users s
   \<and> spots (snd (pgp_post_schedule now s b)) = spots s
   \<and> parking_lots (snd (pgp_post_schedule now s b)) = parking_lots s
   \<and> users (snd (pgp_post_schedule now s b)) = users s"
proof -
  obtain res s' where r: "insert_schedule now s (sql_param (sb_user_id b))
      (sql_param (sb_parking_lot_id b)) (sql_param (sb_spot_number b))
      (sql_param (sb_start_time b)) (sql_param (sb_end_time b)) (sql_param (sb_date b))
      (sql_param (sb_location b)) (sql_param (sb_parking_lot b))
      (sql_param (sb_is_recurring b)) (json_or_null (sb_recurring_days b))
      (Some ''pending'') = (res, s')"
    by (cases "insert_schedule now s (sql_param (sb_user_id b))
      (sql_param (sb_parking_lot_id b)) (sql_param (sb_spot_number b))
      (sql_param (sb_start_time b)) (sql_param (sb_end_time b)) (sql_param (sb_date b))
      (sql_param (sb_location b)) (sql_param (sb_parking_lot b))
      (sql_param (sb_is_recurring b)) (json_or_null (sb_recurring_days b))
      (Some ''pending'')") auto
  obtain res2 s2 where r2: "insert_schedule now s (sql_param (sb_user_id b))
      (sql_param (sb_parking_lot_id b)) (sql_param (sb_spot_number b))
      (sql_param (sb_start_time b)) (sql_param (sb_end_time b)) (sql_param (sb_date b))
      (sql_param (sb_location b)) (sql_param (sb_parking_lot b))
      (sql_param (sb_is_recurring b)) (json_or_null (sb_recurring_days b))
      (sql_param (sb_status b)) = (res2, s2)"
    by (cases "insert_schedule now s (sql_param (sb_user_id b))
      (sql_param (sb_parking_lot_id b)) (sql_param (sb_spot_number b))
      (sql_param (sb_start_time b)) (sql_param (sb_end_time b)) (sql_param (sb_date b))
      (sql_param (sb_location b)) (sql_param (sb_parking_lot b))
      (sql_param (sb_is_recurring b)) (json_or_null (sb_recurring_days b))
      (sql_param (sb_status b))") auto
  have pool: "(\<forall>row. fst (pool_post_schedule now s b) = Created row \<longrightarrow>
        sc_status row = Some ''pending''
        \<and> schedules (snd (pool_post_schedule now s b)) = schedules s @ [row])
      \<and> spots (snd (pool_post_schedule now s b)) = spots s
      \<and> parking_lots (snd (pool_post_schedule now s b)) = parking_lots s
      \<and> users (snd (pool_post_schedule now s b)) = users s"
    using insert_schedule_shape [OF r] r
    by (cases res) (simp_all add: pool_post_schedule_def)
  have pgp: "(\<forall>k. fst (pgp_post_schedule now s b) = Created k \<longrightarrow>
        (\<exists>row. schedules (snd (pgp_post_schedule now s b)) = schedules s @ [row]
              \<and> sc_id row = k \<and> sc_status row = sql_param (sb_status b)
              \<and> check_in [''pending'', ''active'', ''completed'', ''cancelled'']
                    (sc_status row)))
      \<and> spots (snd (pgp_post_schedule now s b)) = spots s
      \<and> parking_lots (snd (pgp_post_schedule now s b)) = parking_lots s
      \<and> users (snd (pgp_post_schedule now s b)) = users s"
    using insert_schedule_shape [OF r2] r2
    by (cases res2) (auto simp: pgp_post_schedule_def pgp_failed_def split: option.splits)
  from pool pgp show ?thesis by blast
qed

theorem post_schedule_persisted_status_witness:
  "fst (pool_post_schedule 0 campus_store (booking 32400 36000 (Val ''active'')))
     = Created (booked 1 32400 36000 (Some ''pending'') 0)
   \<and> sc_status (booked 1 32400 36000 (Some ''pending'') 0) = Some ''pending''
   \<and> schedules (snd (pool_post_schedule 0 campus_store (booking 32400 36000 (Val ''active''))))
       = schedules campus_store @ [booked 1 32400 36000 (Some ''pending'') 0]
   \<and> fst (pgp_post_schedule 0 campus_store (booking 32400 36000 (Val ''active''))) = Created 1
   \<and> (\<exists>row. schedules (snd (pgp_post_schedule 0 campus_store
                                (booking 32400 36000 (Val ''active''))))
                = schedules campus_store @ [row]
            \<and> sc_id row = 1 \<and> sc_status row = Some ''active'')
   \<and> spots (snd (pool_post_schedule 0 campus_store (booking 32400 36000 (Val ''active''))))
       = spots campus_store"
proof -
  have a: "fst (pool_post_schedule 0 campus_store (booking 32400 36000 (Val ''active'')))
     = Created (booked 1 32400 36000 (Some ''pending'') 0)"
    by (simp add: pool_post_schedule_def insert_schedule_def schedule_constraints_def
        campus_store_def booking_def booked_def int4_def Let_def)
  have b: "fst (pgp_post_schedule 0 campus_store (booking 32400 36000 (Val ''active'')))
     = Created 1"
    by (simp add: pgp_post_schedule_def insert_schedule_def schedule_constraints_def
        schedule_props_def pgp_format_def pgp_variable_def pgp_name_char_def
        campus_store_def booking_def int4_def Let_def)
  have c: "sql_param (sb_status (booking 32400 36000 (Val ''active''))) = Some ''active''"
    by (simp add: booking_def)
  from a b c post_schedule_persisted_status
    [of 0 campus_store "booking 32400 36000 (Val ''active'')"]
  show ?thesis by (auto simp: booked_def)
qed

text \<open>
  C7: for a fixed committed state and a fixed input the creation handlers decide the same
  at every evaluation: the decision (the status code and the error named) does not depend
  on the moment of the evaluation. A rejection moreover repeats: when the keys stored are
  those the sequence has issued, evaluating the request again on the state the rejection
  left gives the identical decision.
\<close>

theorem post_schedule_decision_deterministic:
  "decision (fst (pool_post_schedule now s b)) = decision (fst (pool_post_schedule now' s b))
   \<and> decision (fst (pgp_post_schedule now s b)) = decision (fst (pgp_post_schedule now' s b))
   \<and> (list_all (\<lambda>r. sc_id r < schedules_seq s) (schedules s)
        \<and> status_code (fst (pool_post_schedule now s b)) \<noteq> 201 \<longrightarrow>
        decision (fst (pool_post_schedule now' (snd (pool_post_schedule now s b)) b))
          = decision (fst (pool_post_schedule now s b)))
   \<and> (list_all (\<lambda>r. sc_id r < schedules_seq s) (schedules s)
        \<and> status_code (fst (pgp_post_schedule now s b)) \<noteq> 201 \<longrightarrow>
        decision (fst (pgp_post_schedule now' (snd (pgp_post_schedule now s b)) b))
          = decision (fst (pgp_post_schedule now s b)))"
proof (intro conjI impI)
  show "decision (fst (pool_post_schedule now s b)) = decision (fst (pool_post_schedule now' s b))"
    by (simp add: pool_post_schedule_decision)
  show "decision (fst (pgp_post_schedule now s b)) = decision (fst (pgp_post_schedule now' s b))"
    by (simp add: pgp_post_schedule_decision)
next
  assume a: "list_all (\<lambda>r. sc_id r < schedules_seq s) (schedules s)
        \<and> status_code (fst (pool_post_schedule now s b)) \<noteq> 201"
  then have f: "schedules_seq s \<notin> set (map sc_id (schedules s))"
    and g: "schedules_seq s + 1 \<notin> set (map sc_id (schedules s))"
    by (auto simp: list_all_iff)
  have rej: "fst (decision (fst (pool_post_schedule now s b))) \<noteq> 201"
    using a by (simp add: decision_def)
  let ?c = "\<lambda>s' i. schedule_constraints s' i (sql_param (sb_user_id b))
      (sql_param (sb_parking_lot_id b)) (sql_param (sb_spot_number b))
      (sql_param (sb_start_time b)) (sql_param (sb_end_time b)) (sql_param (sb_date b))
      (sql_param (sb_location b)) (sql_param (sb_parking_lot b)) (Some ''pending'')"
  have same: "?c (s\<lparr>schedules_seq := schedules_seq s + 1\<rparr>) (schedules_seq s + 1)
                = ?c s (schedules_seq s)"
    using f g by (intro schedule_constraints_fresh) simp_all
  show "decision (fst (pool_post_schedule now' (snd (pool_post_schedule now s b)) b))
          = decision (fst (pool_post_schedule now s b))"
  proof (cases "?c s (schedules_seq s)")
    case None
    with rej have st: "snd (pool_post_schedule now s b) = s"
      by (auto simp: pool_post_schedule_decision pool_post_schedule_store split: if_splits)
    show ?thesis unfolding st by (simp add: pool_post_schedule_decision)
  next
    case (Some e)
    then have "snd (pool_post_schedule now s b) = s
        \<or> snd (pool_post_schedule now s b) = s\<lparr>schedules_seq := schedules_seq s + 1\<rparr>"
      by (simp add: pool_post_schedule_store)
    then show ?thesis
    proof
      assume st: "snd (pool_post_schedule now s b) = s"
      show ?thesis unfolding st by (simp add: pool_post_schedule_decision)
    next
      assume st: "snd (pool_post_schedule now s b) = s\<lparr>schedules_seq := schedules_seq s + 1\<rparr>"
      show ?thesis unfolding st using same by (simp add: pool_post_schedule_decision)
    qed
  qed
next
  assume a: "list_all (\<lambda>r. sc_id r < schedules_seq s) (schedules s)
        \<and> status_code (fst (pgp_post_schedule now s b)) \<noteq> 201"
  then have f: "schedules_seq s \<notin> set (map sc_id (schedules s))"
    and g: "schedules_seq s + 1 \<notin> set (map sc_id (schedules s))"
    by (auto simp: list_all_iff)
  have rej: "fst (decision (fst (pgp_post_schedule now s b))) \<noteq> 201"
    using a by (simp add: decision_def)
  let ?c = "\<lambda>s' i. schedule_constraints s' i (sql_param (sb_user_id b))
      (sql_param (sb_parking_lot_id b)) (sql_param (sb_spot_number b))
      (sql_param (sb_start_time b)) (sql_param (sb_end_time b)) (sql_param (sb_date b))
      (sql_param (sb_location b)) (sql_param (sb_parking_lot b)) (sql_param (sb_status b))"
  have same: "?c (s\<lparr>schedules_seq := schedules_seq s + 1\<rparr>) (schedules_seq s + 1)
                = ?c s (schedules_seq s)"
    using f g by (intro schedule_constraints_fresh) simp_all
  show "decision (fst (pgp_post_schedule now' (snd (pgp_post_schedule now s b)) b))
          = decision (fst (pgp_post_schedule now s b))"
  proof (cases "?c s (schedules_seq s)")
    case None
    with rej have st: "snd (pgp_post_schedule now s b) = s"
      by (auto simp: pgp_post_schedule_decision pgp_post_schedule_store split: if_splits)
    show ?thesis unfolding st by (simp add: pgp_post_schedule_decision)
  next
    case (Some e)
    then have "snd (pgp_post_schedule now s b) = s
        \<or> snd (pgp_post_schedule now s b) = s\<lparr>schedules_seq := schedules_seq s + 1\<rparr>"
      by (simp add: pgp_post_schedule_store)
    then show ?thesis
    proof
      assume st: "snd (pgp_post_schedule now s b) = s"
      show ?thesis unfolding st by (simp add: pgp_post_schedule_decision)
    next
      assume st: "snd (pgp_post_schedule now s b) = s\<lparr>schedules_seq := schedules_seq s + 1\<rparr>"
      show ?thesis unfolding st using same by (simp add: pgp_post_schedule_decision)
    qed
  qed
qed

theorem post_schedule_decision_deterministic_witness:
  "decision (fst (pool_post_schedule 0 campus_store ((booking 32400 36000 Null)\<lparr>sb_date := Null\<rparr>)))
     = decision (fst (pool_post_schedule 99 campus_store ((booking 32400 36000 Null)\<lparr>sb_date := Null\<rparr>)))
   \<and> decision (fst (pool_post_schedule 0 campus_store ((booking 32400 36000 Null)\<lparr>sb_date := Null\<rparr>)))
     = (500, Some (''Failed to create schedule'', Some (NotNullViolation ''date'')))
   \<and> decision (fst (pool_post_schedule 99
        (snd (pool_post_schedule 0 campus_store ((booking 32400 36000 Null)\<lparr>sb_date := Null\<rparr>)))
        ((booking 32400 36000 Null)\<lparr>sb_date := Null\<rparr>)))
     = (500, Some (''Failed to create schedule'', Some (NotNullViolation ''date'')))
   \<and> decision (fst (pgp_post_schedule 99
        (snd (pgp_post_schedule 0 campus_store ((booking 32400 36000 Null)\<lparr>sb_date := Null\<rparr>)))
        ((booking 32400 36000 Null)\<lparr>sb_date := Null\<rparr>)))
     = (500, Some (''Internal server error'', None))"
proof -
  have a: "decision (fst (pool_post_schedule 0 campus_store ((booking 32400 36000 Null)\<lparr>sb_date := Null\<rparr>)))
     = (500, Some (''Failed to create schedule'', Some (NotNullViolation ''date'')))"
    by (simp add: pool_post_schedule_decision schedule_constraints_def campus_store_def
          booking_def int4_def)
  have b: "decision (fst (pgp_post_schedule 0 campus_store ((booking 32400 36000 Null)\<lparr>sb_date := Null\<rparr>)))
     = (500, Some (''Internal server error'', None))"
    by (simp add: pgp_post_schedule_decision schedule_constraints_def campus_store_def
          booking_def int4_def)
  have c: "list_all (\<lambda>r. sc_id r < schedules_seq campus_store) (schedules campus_store)"
    by (simp add: campus_store_def)
  from a have d: "status_code (fst (pool_post_schedule 0 campus_store
      ((booking 32400 36000 Null)\<lparr>sb_date := Null\<rparr>))) \<noteq> 201"
    by (simp add: decision_def)
  from b have e: "status_code (fst (pgp_post_schedule 0 campus_store
      ((booking 32400 36000 Null)\<lparr>sb_date := Null\<rparr>))) \<noteq> 201"
    by (simp add: decision_def)
  from a b c d e post_schedule_decision_deterministic
    [of 0 campus_store "(booking 32400 36000 Null)\<lparr>sb_date := Null\<rparr>" 99]
  show ?thesis by simp
qed

section \<open>Properties of schedule deletion\<close>

lemma filter_key_single:
  "distinct (map f xs) \<Longrightarrow> x \<in> set xs \<Longrightarrow> filter (\<lambda>y. f y = f x) xs = [x]"
  by (induction xs) (auto simp: filter_empty_conv image_iff)

lemma delete_schedule_present:
  assumes d: "distinct (map sc_id (schedules s))" and i: "int4 i"
    and m: "i \<in> set (map sc_id (schedules s))"
  shows "pgp_delete_schedule s i
           = (OK i, s\<lparr>schedules := filter (\<lambda>r. sc_id r \<noteq> i) (schedules s)\<rparr>)"
proof -
  from m obtain x where x: "x \<in> set (schedules s)" "sc_id x = i" by auto
  with d have "filter (\<lambda>r. sc_id r = i) (schedules s) = [x]"
    using filter_key_single [of sc_id "schedules s" x] by simp
  with i x show ?thesis
    by (simp add: pgp_delete_schedule_def delete_schedule_def pgp_format_def pgp_variable_def
          pgp_name_char_def)
qed

lemma delete_schedule_absent:
  assumes i: "int4 i" and m: "i \<notin> set (map sc_id (schedules s))"
  shows "pgp_delete_schedule s i = (NotFound ''Not Found'', s)"
proof -
  from m have a: "filter (\<lambda>r. sc_id r = i) (schedules s) = []"
    by (auto simp: filter_empty_conv)
  from m have b: "filter (\<lambda>r. sc_id r \<noteq> i) (schedules s) = schedules s"
    by (auto simp: filter_id_conv)
  from i a b show ?thesis
    by (simp add: pgp_delete_schedule_def delete_schedule_def pgp_format_def pgp_variable_def
          pgp_name_char_def)
qed

lemma lower_literals:
  "toLowerCase ''api'' = ''api''"
  "toLowerCase ''health'' = ''health''"
  "toLowerCase ''parking-lots'' = ''parking-lots''"
  "toLowerCase ''users'' = ''users''"
  "toLowerCase ''schedules'' = ''schedules''"
  "toLowerCase ''issues'' = ''issues''"
  "toLowerCase ''login'' = ''login''"
  "toLowerCase ''email'' = ''email''"
  "toLowerCase ''vehicles'' = ''vehicles''"
  "toLowerCase ''user'' = ''user''"
  "toLowerCase ''lot'' = ''lot''"
  "toLowerCase ''unread'' = ''unread''"
  "toLowerCase ''status'' = ''status''"
  "toLowerCase ''read'' = ''read''"
  "toLowerCase ''occupancy'' = ''occupancy''"
  "toLowerCase ''lots'' = ''lots''"
  by (simp_all add: toLowerCase_def lower_char_def)

lemma pool_no_schedule_delete_route:
  "pool_unrouted DELETE [''api'', ''schedules'', x] s = Some (NotFound ''Route not found'', s)"
  by (simp add: pool_unrouted_def routed_def pool_routes_def lower_literals)

text \<open>
  C2 (as stated): deleting a schedule sets its status to cancelled and keeps the row, and
  a second delete of the same id is again a success. In the pg-promise server the first
  delete of schedule 1 removes the row and answers 200, and the second answers 404.
\<close>

theorem delete_schedule_twice:
  "pgp_delete_schedule
     (campus_store\<lparr>schedules := [booked 1 32400 37800 (Some ''pending'') 0],
                    schedules_seq := 2\<rparr>) 1
     = (OK 1, campus_store\<lparr>schedules := [], schedules_seq := 2\<rparr>)
   \<and> pgp_delete_schedule (campus_store\<lparr>schedules := [], schedules_seq := 2\<rparr>) 1
     = (NotFound ''Not Found'', campus_store\<lparr>schedules := [], schedules_seq := 2\<rparr>)"
  by (simp add: pgp_delete_schedule_def delete_schedule_def pgp_format_def pgp_variable_def
        pgp_name_char_def campus_store_def booked_def int4_def)

text \<open>
  C2 (amended): in the pg-promise server deleting a schedule removes its row: for a stored
  schedule the answer is 200 with the id and no row of that id is left, so that the same
  request, repeated, is answered 404; for an id that no schedule has the answer is 404
  and nothing changes. No status is set to cancelled. The pool server has no route for
  deleting a schedule and answers 404.
\<close>

theorem delete_schedule_removes_row:
  "(distinct (map sc_id (schedules s)) \<and> int4 i \<and> i \<in> set (map sc_id (schedules s)) \<longrightarrow>
      fst (pgp_delete_schedule s i) = OK i
      \<and> schedules (snd (pgp_delete_schedule s i)) = filter (\<lambda>r. sc_id r \<noteq> i) (schedules s)
      \<and> i \<notin> set (map sc_id (schedules (snd (pgp_delete_schedule s i))))
      \<and> pgp_delete_schedule (snd (pgp_delete_schedule s i)) i
          = (NotFound ''Not Found'', snd (pgp_delete_schedule s i)))
   \<and> (int4 j \<and> j \<notin> set (map sc_id (schedules s)) \<longrightarrow>
        pgp_delete_schedule s j = (NotFound ''Not Found'', s))
   \<and> pool_unrouted DELETE [''api'', ''schedules'', x] s = Some (NotFound ''Route not found'', s)"
proof (intro conjI impI)
  assume a: "distinct (map sc_id (schedules s)) \<and> int4 i \<and> i \<in> set (map sc_id (schedules s))"
  then have p: "pgp_delete_schedule s i
      = (OK i, s\<lparr>schedules := filter (\<lambda>r. sc_id r \<noteq> i) (schedules s)\<rparr>)"
    by (simp add: delete_schedule_present)
  show "fst (pgp_delete_schedule s i) = OK i" by (simp add: p)
  show "schedules (snd (pgp_delete_schedule s i)) = filter (\<lambda>r. sc_id r \<noteq> i) (schedules s)"
    by (simp add: p)
  show gone: "i \<notin> set (map sc_id (schedules (snd (pgp_delete_schedule s i))))"
    by (auto simp: p)
  from a gone show "pgp_delete_schedule (snd (pgp_delete_schedule s i)) i
      = (NotFound ''Not Found'', snd (pgp_delete_schedule s i))"
    by (intro delete_schedule_absent) simp_all
next
  assume "int4 j \<and> j \<notin> set (map sc_id (schedules s))"
  then show "pgp_delete_schedule s j = (NotFound ''Not Found'', s)"
    by (simp add: delete_schedule_absent)
next
  show "pool_unrouted DELETE [''api'', ''schedules'', x] s = Some (NotFound ''Route not found'', s)"
    by (rule pool_no_schedule_delete_route)
qed

theorem delete_schedule_removes_row_witness:
  "fst (pgp_delete_schedule
          (campus_store\<lparr>schedules := [booked 1 32400 37800 (Some ''pending'') 0,
                                       booked 2 39600 43200 (Some ''active'') 9],
                         schedules_seq := 3\<rparr>) 2) = OK 2
   \<and> schedules (snd (pgp_delete_schedule
          (campus_store\<lparr>schedules := [booked 1 32400 37800 (Some ''pending'') 0,
                                       booked 2 39600 43200 (Some ''active'') 9],
                         schedules_seq := 3\<rparr>) 2))
       = [booked 1 32400 37800 (Some ''pending'') 0]
   \<and> fst (pgp_delete_schedule (snd (pgp_delete_schedule
          (campus_store\<lparr>schedules := [booked 1 32400 37800 (Some ''pending'') 0,
                                       booked 2 39600 43200 (Some ''active'') 9],
                         schedules_seq := 3\<rparr>) 2)) 2) = NotFound ''Not Found''
   \<and> fst (pgp_delete_schedule
          (campus_store\<lparr>schedules := [booked 1 32400 37800 (Some ''pending'') 0,
                                       booked 2 39600 43200 (Some ''active'') 9],
                         schedules_seq := 3\<rparr>) 7) = NotFound ''Not Found''"
  using delete_schedule_removes_row
    [where s = "campus_store\<lparr>schedules := [booked 1 32400 37800 (Some ''pending'') 0,
                                            booked 2 39600 43200 (Some ''active'') 9],
                              schedules_seq := 3\<rparr>"
       and i = 2 and j = 7 and x = "''2''"]
  by (simp add: booked_def int4_def)

section \<open>Properties of the routes: occupancy\<close>

text \<open>
  C8 (as stated): the occupancy query of a lot maps every spot label to a status, and a
  manually disabled spot is reported disabled even while a schedule is active on it. With
  spot A40 of lot 1 disabled and an active schedule on it, the request is answered 404 by
  the fallback handler of the pg-promise server: no mapping is computed.
\<close>

theorem occupancy_of_disabled_spot_not_found:
  "pgp_unrouted GET [''api'', ''parking-lots'', ''1'', ''occupancy'']
     (campus_store
        \<lparr>spots := [\<lparr>sp_id = 40, sp_parking_lot_id = Some 1, sp_spot_number = ''A40'',
                     sp_row_number = Some 3, sp_col_number = Some 9,
                     sp_status = Some ''disabled''\<rparr>],
         schedules := [booked 1 32400 37800 (Some ''active'') 0], schedules_seq := 2\<rparr>)
   = Some (NotFound ''Endpoint not found'',
       campus_store
        \<lparr>spots := [\<lparr>sp_id = 40, sp_parking_lot_id = Some 1, sp_spot_number = ''A40'',
                     sp_row_number = Some 3, sp_col_number = Some 9,
                     sp_status = Some ''disabled''\<rparr>],
         schedules := [booked 1 32400 37800 (Some ''active'') 0], schedules_seq := 2\<rparr>)"
  by (simp add: pgp_unrouted_def routed_def pgp_routes_def lower_literals)

text \<open>
  C8 (amended): neither server has an occupancy query. A \<^verbatim>\<open>GET\<close> of
  \<^verbatim>\<open>/lots/{id}/occupancy\<close> or of \<^verbatim>\<open>/api/parking-lots/{id}/occupancy\<close> matches no route, for
  every id, and is answered 404 by the fallback handler, which is a pure read: the store
  is left as it is. No status is derived from the schedules.
\<close>

theorem occupancy_not_routed:
  "pool_unrouted GET [''api'', ''parking-lots'', i, ''occupancy''] s
     = Some (NotFound ''Route not found'', s)
   \<and> pool_unrouted GET [''lots'', i, ''occupancy''] s = Some (NotFound ''Route not found'', s)
   \<and> pgp_unrouted GET [''api'', ''parking-lots'', i, ''occupancy''] s
     = Some (NotFound ''Endpoint not found'', s)
   \<and> pgp_unrouted GET [''lots'', i, ''occupancy''] s = Some (NotFound ''Endpoint not found'', s)"
  by (simp add: pool_unrouted_def pgp_unrouted_def routed_def pool_routes_def pgp_routes_def
        lower_literals)

theorem occupancy_not_routed_witness:
  "pool_unrouted GET [''api'', ''parking-lots'', ''1'', ''occupancy''] campus_store
     = Some (NotFound ''Route not found'', campus_store)
   \<and> pgp_unrouted GET [''lots'', ''1'', ''occupancy''] campus_store
     = Some (NotFound ''Endpoint not found'', campus_store)"
  using occupancy_not_routed [of "''1''" campus_store] by simp

section \<open>Properties of the user handlers\<close>

lemma delete_user_query_malformed:
  "pgp_format [''id''] [CHR 0x22 # ''inactive'' @ [CHR 0x22], ''id''] = Some SyntaxError"
  by (simp add: pgp_format_def pgp_variable_def pgp_name_char_def)

text \<open>
  C9: deleting a user is a soft delete that sets the status to inactive and answers 200
  with the id, so that the user can still be read. The handler does not do what its
  comment announces: the text \<^verbatim>\<open>${"inactive"}\<close> of its query is no placeholder and no SQL,
  so the statement fails for every id, the answer is 500, and no status is changed.
\<close>

theorem delete_user_always_fails:
  "pgp_delete_user now s i = (ServerError ''Internal server error'' None, s)"
  unfolding pgp_delete_user_def delete_user_query_malformed by (simp add: pgp_failed_def)

theorem delete_user_always_fails_witness:
  "pgp_delete_user 9 campus_store 1 = (ServerError ''Internal server error'' None, campus_store)
   \<and> pgp_get_user (snd (pgp_delete_user 9 campus_store 1)) 1
     = OK \<lparr>v_id = 1, v_name = ''Admin User'', v_email = ''admin@calvin.edu'',
           v_phone = Some ''+1-616-555-0100'', v_role = ''admin'', v_department = Some ''IT'',
           v_status = Some ''active'', v_avatar = None, v_created_at = 0\<rparr>"
  using delete_user_always_fails [of 9 campus_store 1]
  by (simp add: pgp_get_user_def pgp_format_def pgp_variable_def pgp_name_char_def
        campus_store_def user_view_of_def int4_def)







text \<open>
  The lookup compares the email as submitted while the row is stored in lower case: an
  email that differs from a stored one in case only passes the lookup, and the insert
  then fails on the unique constraint. The answer is 500 and no row is added.
\<close>

lemma post_user_duplicate_in_other_case:
  "pgp_post_user hash 5 campus_store
     \<lparr>ub_name = Val ''Second Admin'', ub_email = Val ''Admin@Calvin.edu'',
      ub_phone = Undefined, ub_password = Val ''admin123'', ub_role = Val ''admin'',
      ub_department = Undefined, ub_status = Undefined, ub_avatar = Undefined\<rparr>
     = (ServerError ''Internal server error'' None, campus_store\<lparr>users_seq := 3\<rparr>)"
proof -
  have l: "toLowerCase ''Admin@Calvin.edu'' = ''admin@calvin.edu''"
    by (simp add: toLowerCase_def lower_char_def)
  show ?thesis
    by (simp add: pgp_post_user_def insert_user_def user_constraints_def pgp_failed_def
          l campus_store_def Let_def)
qed



end
